theory Spec2Isabelle
  imports Main
begin

section \<open>Python text primitives used by the controller\<close>

text \<open>
  Text is a list of characters. A \<^typ>\<open>char\<close> stands for the code point of the same
  number (0 to 255); the tables below are Python's \<^verbatim>\<open>str.isalpha\<close>,
  \<^verbatim>\<open>str.isdigit\<close> and \<^verbatim>\<open>str.isspace\<close> on that range. Code points above 255
  are outside the model.
\<close>

definition py_isalpha :: "char \<Rightarrow> bool" where
  "py_isalpha c =
     (let n = (of_char c :: nat)
      in (65 \<le> n \<and> n \<le> 90) \<or> (97 \<le> n \<and> n \<le> 122) \<or> n = 170 \<or> n = 181 \<or> n = 186
         \<or> (192 \<le> n \<and> n \<le> 214) \<or> (216 \<le> n \<and> n \<le> 246) \<or> (248 \<le> n \<and> n \<le> 255))"

definition py_isdigit :: "char \<Rightarrow> bool" where
  "py_isdigit c =
     (let n = (of_char c :: nat)
      in (48 \<le> n \<and> n \<le> 57) \<or> n = 178 \<or> n = 179 \<or> n = 185)"

definition py_isspace :: "char \<Rightarrow> bool" where
  "py_isspace c =
     (let n = (of_char c :: nat)
      in (9 \<le> n \<and> n \<le> 13) \<or> (28 \<le> n \<and> n \<le> 32) \<or> n = 133 \<or> n = 160)"

text \<open>\<^verbatim>\<open>s.strip()\<close>: whitespace removed at both ends.\<close>

definition py_strip :: "string \<Rightarrow> string" where
  "py_strip s = rev (dropWhile py_isspace (rev (dropWhile py_isspace s)))"

text \<open>\<^verbatim>\<open>s.split(c)\<close> for a one-character separator: never an empty list.\<close>

fun py_split :: "char \<Rightarrow> string \<Rightarrow> string list" where
  "py_split c [] = [[]]"
| "py_split c (x # xs) =
     (if x = c then [] # py_split c xs
      else (case py_split c xs of
              [] \<Rightarrow> [[x]]
            | p # ps \<Rightarrow> (x # p) # ps))"

text \<open>\<^verbatim>\<open>sep.join(parts)\<close>.\<close>

fun py_join :: "string \<Rightarrow> string list \<Rightarrow> string" where
  "py_join sep [] = []"
| "py_join sep [p] = p"
| "py_join sep (p # q # ps) = p @ sep @ py_join sep (q # ps)"

text \<open>\<^verbatim>\<open>s.startswith(p)\<close>.\<close>

definition py_startswith :: "string \<Rightarrow> string \<Rightarrow> bool" where
  "py_startswith s p = (take (length p) s = p)"

text \<open>
  \<^verbatim>\<open>int(s)\<close> on text: surrounding whitespace is ignored, one sign is allowed, the
  digits are ASCII digits, and a single underscore may stand between two digits.
  \<open>None\<close> is the \<^verbatim>\<open>ValueError\<close>.
\<close>

definition ascii_digit :: "char \<Rightarrow> bool" where
  "ascii_digit c = (let n = (of_char c :: nat) in 48 \<le> n \<and> n \<le> 57)"

definition digit_val :: "char \<Rightarrow> nat" where
  "digit_val c = of_char c - 48"

fun parse_digits :: "string \<Rightarrow> bool \<Rightarrow> nat \<Rightarrow> nat option" where
  "parse_digits [] prev acc = (if prev then Some acc else None)"
| "parse_digits (c # cs) prev acc =
     (if ascii_digit c then parse_digits cs True (acc * 10 + digit_val c)
      else if c = CHR ''_'' \<and> prev then parse_digits cs False acc
      else None)"

definition py_int :: "string \<Rightarrow> int option" where
  "py_int s =
     (case py_strip s of
        [] \<Rightarrow> None
      | c # cs \<Rightarrow>
          if c = CHR ''-'' then map_option (\<lambda>n. - int n) (parse_digits cs False 0)
          else if c = CHR ''+'' then map_option int (parse_digits cs False 0)
          else map_option int (parse_digits (c # cs) False 0))"

text \<open>\<^verbatim>\<open>str(n)\<close> for an integer: decimal digits, a minus sign when negative.\<close>

definition digit_char :: "nat \<Rightarrow> char" where
  "digit_char d = char_of (48 + d)"

function str_nat :: "nat \<Rightarrow> string" where
  "str_nat n = (if n < 10 then [digit_char n] else str_nat (n div 10) @ [digit_char (n mod 10)])"
  by pat_completeness auto
termination
  by (relation "measure (\<lambda>n. n)") auto

declare str_nat.simps [simp del]

definition str_int :: "int \<Rightarrow> string" where
  "str_int i = (if i < 0 then CHR ''-'' # str_nat (nat (- i)) else str_nat (nat i))"

definition str_bool :: "bool \<Rightarrow> string" where
  "str_bool b = (if b then ''True'' else ''False'')"

text \<open>\<^verbatim>\<open>str(xs)\<close> for a list of integers, as in \<^verbatim>\<open>[1, 2]\<close>.\<close>

definition str_int_list :: "int list \<Rightarrow> string" where
  "str_int_list xs = ''['' @ py_join '', '' (map str_int xs) @ '']''"

text \<open>\<^verbatim>\<open>str(xs)\<close> for a list of names without quotes or escapes, as in \<^verbatim>\<open>['a', 'b']\<close>.\<close>

definition str_name_list :: "string list \<Rightarrow> string" where
  "str_name_list xs = ''['' @ py_join '', '' (map (\<lambda>x. [CHR 0x27] @ x @ [CHR 0x27]) xs) @ '']''"

section \<open>Packet protocol functions\<close>

text \<open>
  A Python \<^verbatim>\<open>dict\<close> with text keys and text values, in insertion order. Assigning
  to a key that is present replaces the value in place; a new key goes to the end.
\<close>

type_synonym pydict = "(string \<times> string) list"

fun dict_set :: "string \<Rightarrow> string \<Rightarrow> pydict \<Rightarrow> pydict" where
  "dict_set k v [] = [(k, v)]"
| "dict_set k v (p # ps) = (if fst p = k then (k, v) # ps else p # dict_set k v ps)"

definition dict_has :: "string \<Rightarrow> pydict \<Rightarrow> bool" where
  "dict_has k d = (k \<in> fst ` set d)"

definition dict_get :: "pydict \<Rightarrow> string \<Rightarrow> string" where
  "dict_get d k = (case map_of d k of Some v \<Rightarrow> v | None \<Rightarrow> [])"

text \<open>
  \<^verbatim>\<open>build_packet(**kwargs)\<close>: the keyword arguments in order, each value already
  rendered as text (the source renders it with an f-string).
\<close>

definition build_packet :: "pydict \<Rightarrow> string" where
  "build_packet kwargs = py_join '','' (map (\<lambda>(k, v). k @ v) kwargs)"

definition is_packet :: "string \<Rightarrow> bool" where
  "is_packet message =
     (if length message < 2 then False
      else py_isalpha (message ! 0) \<and> (py_isdigit (message ! 1) \<or> message ! 1 = CHR ''-''))"

text \<open>The loop body of \<^verbatim>\<open>parse_packet\<close>: segments shorter than two characters are skipped.\<close>

fun parse_pairs :: "string list \<Rightarrow> pydict \<Rightarrow> pydict" where
  "parse_pairs [] result = result"
| "parse_pairs (pair # pairs) result =
     (if length pair \<ge> 2 then parse_pairs pairs (dict_set [hd pair] (tl pair) result)
      else parse_pairs pairs result)"

definition parse_packet :: "string \<Rightarrow> pydict option" where
  "parse_packet message =
     (if \<not> is_packet message then None
      else Some (parse_pairs (py_split CHR '','' message) []))"


text \<open>\<^verbatim>\<open>describe_packet\<close>: the known keys in a fixed order, for log lines only.\<close>

definition describe_packet :: "pydict \<Rightarrow> string" where
  "describe_packet packet =
     (let parts =
        (if dict_has ''s'' packet then [''Sync''] else []) @
        (if dict_has ''t'' packet then [''Temp '' @ dict_get packet ''t'' @ [char_of (176 :: nat), CHR ''F'']] else []) @
        (if dict_has ''h'' packet then [''Humidity '' @ dict_get packet ''h'' @ ''%''] else []) @
        (if dict_has ''x'' packet then [''Max '' @ dict_get packet ''x''] else []) @
        (if dict_has ''n'' packet then [''Min '' @ dict_get packet ''n''] else []) @
        (if dict_has ''a'' packet
           then [''AC '' @ (if dict_get packet ''a'' = ''1'' then ''ON'' else ''OFF'')] else []) @
        (if dict_has ''l'' packet
           then [''Allow '' @ (if dict_get packet ''l'' = ''1'' then ''Yes'' else ''No'')] else []) @
        (if dict_has ''b'' packet then [''Brightness '' @ dict_get packet ''b'' @ ''%''] else []) @
        (if dict_has ''k'' packet then [''Heartbeat''] else []) @
        (if dict_has ''q'' packet then [''Query State''] else []) @
        (if dict_has ''r'' packet then [''Reset''] else []) @
        (if dict_has ''g'' packet then [''Toggle Perm''] else [])
      in if parts \<noteq> [] then py_join '', '' parts else ''Unknown'')"

definition describe_message :: "string \<Rightarrow> string" where
  "describe_message message =
     (if is_packet message then
        (case parse_packet message of
           Some packet \<Rightarrow>
             if packet \<noteq> [] then message @ '' ('' @ describe_packet packet @ '')'' else message
         | None \<Rightarrow> message)
      else message)"

section \<open>Controller state and its environment\<close>

text \<open>
  Times are integers counting milliseconds; the source's constants are in seconds
  (and minutes for the staleness threshold) and are scaled where they are compared.
\<close>

definition TEMP_WARNING_TIMEOUT :: int where "TEMP_WARNING_TIMEOUT = 90"
definition TEMP_SAFETY_TIMEOUT :: int where "TEMP_SAFETY_TIMEOUT = 180"
definition PING_INTERVAL :: int where "PING_INTERVAL = 60"
definition DB_STALE_THRESHOLD :: int where "DB_STALE_THRESHOLD = 40"
definition NODE_STATUS_DB_INTERVAL :: int where "NODE_STATUS_DB_INTERVAL = 30"
definition MESH_NODE_ID :: int where "MESH_NODE_ID = 0"
definition NODE_AC_RELAY :: int where "NODE_AC_RELAY = 1"
definition NODE_TEMP_LCD :: int where "NODE_TEMP_LCD = 2"

definition seconds :: "int \<Rightarrow> int" where "seconds n = 1000 * n"
definition minutes :: "int \<Rightarrow> int" where "minutes n = 60000 * n"

datatype level = Rx | Tx | Db | Info | Warn | Error

datatype origin = NodeId int | Label string

text \<open>
  Everything the controller does to the outside, in order: console log lines, radio
  calls, pauses and replies to socket clients. A log line keeps its level, text and
  node argument; the clock prefix of the printed line is left out, and so is the text
  of a caught exception where the source interpolates it.
\<close>

datatype event =
    Log level string "origin option"
  | MeshUpdate
  | MeshDhcp
  | MeshWrite int string bool
  | Sleep int
  | ClientSend nat string

text \<open>
  A float as the controller observes it: \<^verbatim>\<open>int(x)\<close>, \<^verbatim>\<open>str(x)\<close> and its truth
  value. Only finite floats are modelled.
\<close>

record pyfloat =
  fl_int :: int
  fl_str :: string
  fl_true :: bool

record ack_wait =
  node_id :: int
  start_time :: int
  timeout :: int

record node_row =
  nr_node_id :: int
  nr_name :: string
  nr_last_seen :: int
  nr_status :: string
  nr_last_message :: "string option"

text \<open>
  The module's globals, the locals of \<^verbatim>\<open>main\<close> that live across iterations, the
  three database tables, and the environment: the clock, the outcome of each coming
  \<^verbatim>\<open>mesh.write\<close> (\<open>radio\<close>; once it is used up a write fails), whether each coming
  database connection fails (\<open>db_faults\<close>; once it is used up connections succeed),
  and \<^verbatim>\<open>float()\<close> on text (\<open>py_float\<close>, \<open>None\<close> where it raises).
\<close>

record world =
  ac_allowed :: bool
  connected_clients :: "int list"
  connect_fail_clients :: "int list"
  last_known_temp :: "string option"
  node_status_last_update :: "int \<Rightarrow> int option"
  node_last_heard :: "int \<Rightarrow> int option"
  waiting_for_ack_state :: "ack_wait option"
  last_ping_time :: int
  last_temp_received_time :: int
  warning_printed :: bool
  shutdown_executed :: bool
  ac_data :: "(int \<times> bool) list"
  ac_settings :: "string \<Rightarrow> string option"
  mesh_nodes :: "node_row list"
  clock :: int
  radio :: "bool list"
  db_faults :: "bool list"
  py_float :: "string \<Rightarrow> pyfloat option"
  trace :: "event list"

definition log :: "level \<Rightarrow> string \<Rightarrow> origin option \<Rightarrow> world \<Rightarrow> world" where
  "log lvl message node w = w\<lparr>trace := trace w @ [Log lvl message node]\<rparr>"

definition sleep :: "int \<Rightarrow> world \<Rightarrow> world" where
  "sleep ms w = w\<lparr>clock := clock w + ms, trace := trace w @ [Sleep ms]\<rparr>"

definition mesh_update :: "world \<Rightarrow> world" where
  "mesh_update w = w\<lparr>trace := trace w @ [MeshUpdate]\<rparr>"

definition mesh_dhcp :: "world \<Rightarrow> world" where
  "mesh_dhcp w = w\<lparr>trace := trace w @ [MeshDhcp]\<rparr>"

definition mesh_write :: "string \<Rightarrow> int \<Rightarrow> world \<Rightarrow> bool \<times> world" where
  "mesh_write message node w =
     (case radio w of
        [] \<Rightarrow> (False, w\<lparr>trace := trace w @ [MeshWrite node message False]\<rparr>)
      | r # rs \<Rightarrow> (r, w\<lparr>radio := rs, trace := trace w @ [MeshWrite node message r]\<rparr>))"

text \<open>
  \<^verbatim>\<open>send_message_to_client\<close>: the text goes to the client's socket. A failed socket
  write changes nothing in this module's state and is not modelled.
\<close>

definition send_message_to_client :: "nat \<Rightarrow> string \<Rightarrow> world \<Rightarrow> world" where
  "send_message_to_client client message w = w\<lparr>trace := trace w @ [ClientSend client message]\<rparr>"

section \<open>Database functions\<close>

text \<open>
  \<^verbatim>\<open>get_db_connection\<close> and the statement run on it: \<open>False\<close> is the exception that
  the caller's \<^verbatim>\<open>except Exception\<close> catches.
\<close>

definition get_db_connection :: "world \<Rightarrow> bool \<times> world" where
  "get_db_connection w =
     (case db_faults w of
        [] \<Rightarrow> (True, w)
      | f # fs \<Rightarrow> (\<not> f, w\<lparr>db_faults := fs\<rparr>))"

text \<open>
  \<^verbatim>\<open>ORDER BY date DESC, time DESC LIMIT 1\<close>: the row with the greatest timestamp;
  among equal timestamps the row inserted last. Rows are kept in insertion order.
\<close>

fun latest_row :: "(int \<times> bool) list \<Rightarrow> (int \<times> bool) option" where
  "latest_row [] = None"
| "latest_row (r # rs) =
     (case latest_row rs of
        None \<Rightarrow> Some r
      | Some r' \<Rightarrow> if fst r \<le> fst r' then Some r' else Some r)"

definition get_last_ac_state :: "world \<Rightarrow> (bool option \<times> int option) \<times> world" where
  "get_last_ac_state w =
     (case get_db_connection w of
        (True, w1) \<Rightarrow>
          (case latest_row (ac_data w1) of
             Some (ts, st) \<Rightarrow> ((Some st, Some ts), w1)
           | None \<Rightarrow> ((None, None), w1))
      | (False, w1) \<Rightarrow> ((None, None), log Error ''DB read error: '' None w1))"

definition get_ac_state :: "world \<Rightarrow> bool \<times> world" where
  "get_ac_state w =
     (case get_db_connection w of
        (True, w1) \<Rightarrow>
          (case latest_row (ac_data w1) of
             Some (ts, st) \<Rightarrow> (st, w1)
           | None \<Rightarrow> (False, w1))
      | (False, w1) \<Rightarrow> (False, log Error ''DB get AC state error: '' None w1))"

definition database_log :: "bool \<Rightarrow> world \<Rightarrow> world" where
  "database_log state w =
     (case get_last_ac_state w of
        ((last_state, _), w1) \<Rightarrow>
          if last_state = Some state then w1
          else
            (case get_db_connection w1 of
               (True, w2) \<Rightarrow>
                 log Db (''AC state logged: '' @ (if state then ''ON'' else ''OFF'')) None
                   (w2\<lparr>ac_data := ac_data w2 @ [(clock w2, state)]\<rparr>)
             | (False, w2) \<Rightarrow> log Error ''DB write error: '' None w2))"

definition save_temps :: "string \<Rightarrow> string \<Rightarrow> world \<Rightarrow> bool \<times> world" where
  "save_temps max_temp min_temp w =
     (case get_db_connection w of
        (True, w1) \<Rightarrow>
          (True,
           log Db (''Temps saved: max='' @ max_temp @ '', min='' @ min_temp) None
             (w1\<lparr>ac_settings := (ac_settings w1)(''max_temp'' \<mapsto> max_temp, ''min_temp'' \<mapsto> min_temp)\<rparr>))
      | (False, w1) \<Rightarrow> (False, log Error ''DB save temps error: '' None w1))"

definition default_max :: pyfloat where
  "default_max = \<lparr>fl_int = 78, fl_str = ''78.0'', fl_true = True\<rparr>"

definition default_min :: pyfloat where
  "default_min = \<lparr>fl_int = 72, fl_str = ''72.0'', fl_true = True\<rparr>"

text \<open>
  \<^verbatim>\<open>get_temps\<close>: \<^verbatim>\<open>float()\<close> is applied to every row found, so one unreadable value
  raises inside the \<^verbatim>\<open>try\<close> and gives the defaults.
\<close>

definition get_temps :: "world \<Rightarrow> (pyfloat \<times> pyfloat) \<times> world" where
  "get_temps w =
     (case get_db_connection w of
        (True, w1) \<Rightarrow>
          (let max_row = ac_settings w1 ''max_temp'';
               min_row = ac_settings w1 ''min_temp'';
               raised = ((case max_row of Some v \<Rightarrow> py_float w1 v = None | None \<Rightarrow> False)
                         \<or> (case min_row of Some v \<Rightarrow> py_float w1 v = None | None \<Rightarrow> False))
           in if raised then ((default_max, default_min), log Error ''DB read temps error: '' None w1)
              else
                (case (Option.bind max_row (py_float w1), Option.bind min_row (py_float w1)) of
                   (Some max_temp, Some min_temp) \<Rightarrow> ((max_temp, min_temp), w1)
                 | _ \<Rightarrow>
                     ((default_max, default_min),
                      log Warn ''Temps not in database, using defaults (78/72)'' None w1)))
      | (False, w1) \<Rightarrow> ((default_max, default_min), log Error ''DB read temps error: '' None w1))"

definition save_ac_allowed :: "bool \<Rightarrow> world \<Rightarrow> bool \<times> world" where
  "save_ac_allowed allowed w =
     (case get_db_connection w of
        (True, w1) \<Rightarrow>
          (True,
           log Db (''AC allowed saved: '' @ str_bool allowed) None
             (w1\<lparr>ac_settings := (ac_settings w1)(''ac_allowed'' \<mapsto> str_bool allowed)\<rparr>))
      | (False, w1) \<Rightarrow> (False, log Error ''DB save ac_allowed error: '' None w1))"

definition get_ac_allowed :: "world \<Rightarrow> bool \<times> world" where
  "get_ac_allowed w =
     (case get_db_connection w of
        (True, w1) \<Rightarrow>
          (case ac_settings w1 ''ac_allowed'' of
             Some v \<Rightarrow> (v = ''True'', w1)
           | None \<Rightarrow> (False, log Info ''ac_allowed not in database, defaulting to False'' None w1))
      | (False, w1) \<Rightarrow> (False, log Error ''DB read ac_allowed error: '' None w1))"

section \<open>Node tracking\<close>

definition update_node_status :: "int \<Rightarrow> string option \<Rightarrow> world \<Rightarrow> world" where
  "update_node_status node message w =
     (let now = clock w;
          last_update = (case node_status_last_update w node of Some t \<Rightarrow> t | None \<Rightarrow> 0)
      in if now - last_update < seconds NODE_STATUS_DB_INTERVAL then w
         else
           (case get_db_connection w of
              (True, w1) \<Rightarrow>
                w1\<lparr>mesh_nodes :=
                      map (\<lambda>r. if nr_node_id r = node
                                then r\<lparr>nr_last_seen := now, nr_status := ''online'',
                                       nr_last_message :=
                                         (case message of Some m \<Rightarrow> Some m | None \<Rightarrow> nr_last_message r)\<rparr>
                                else r)
                          (mesh_nodes w1),
                    node_status_last_update := (node_status_last_update w1)(node \<mapsto> now)\<rparr>
            | (False, w1) \<Rightarrow> log Error ''DB update node status error: '' None w1))"

definition mark_node_offline :: "int \<Rightarrow> world \<Rightarrow> world" where
  "mark_node_offline node w =
     (case get_db_connection w of
        (True, w1) \<Rightarrow>
          w1\<lparr>mesh_nodes :=
                map (\<lambda>r. if nr_node_id r = node then r\<lparr>nr_status := ''offline''\<rparr> else r) (mesh_nodes w1)\<rparr>
      | (False, w1) \<Rightarrow> log Error ''DB mark node offline error: '' None w1)"

text \<open>\<^verbatim>\<open>get_known_nodes\<close>: the table is kept in \<^verbatim>\<open>node_id\<close> order.\<close>

definition get_known_nodes :: "world \<Rightarrow> node_row list \<times> world" where
  "get_known_nodes w =
     (case get_db_connection w of
        (True, w1) \<Rightarrow> (mesh_nodes w1, w1)
      | (False, w1) \<Rightarrow> ([], log Error ''DB get known nodes error: '' None w1))"

section \<open>Mesh network communication\<close>

text \<open>
  \<^verbatim>\<open>send_message_to_node\<close>: the \<^verbatim>\<open>for attempt in range(3)\<close> loop, from the attempt
  number given.
\<close>

function send_attempts :: "nat \<Rightarrow> int \<Rightarrow> string \<Rightarrow> world \<Rightarrow> bool \<times> world" where
  "send_attempts attempt node message w =
     (if attempt < 3 then
        (let w1 = mesh_update w;
             w2 = (if MESH_NODE_ID = 0 then mesh_dhcp w1 else w1)
         in case mesh_write message node w2 of
              (True, w3) \<Rightarrow> (True, log Tx (describe_message message) (Some (NodeId node)) w3)
            | (False, w3) \<Rightarrow>
                send_attempts (attempt + 1) node message (if attempt < 2 then sleep 250 w3 else w3))
      else
        (False,
         log Error (''Failed to send '' @ [CHR 0x27] @ describe_message message @ [CHR 0x27]
                    @ '' after 3 attempts'') (Some (NodeId node)) w))"
  by pat_completeness auto
termination
  by (relation "measure (\<lambda>(attempt, node, message, w). 3 - attempt)") auto

declare send_attempts.simps [simp del]

definition send_message_to_node :: "int \<Rightarrow> string \<Rightarrow> world \<Rightarrow> bool \<times> world" where
  "send_message_to_node node message w = send_attempts 0 node message w"

text \<open>
  The result of the \<open>i\<close>-th coming \<^verbatim>\<open>mesh.write\<close>, and the events of one attempt and
  of the closing log line. With them \<^verbatim>\<open>send_message_to_node\<close> has four behaviours.
\<close>

definition outcome :: "nat \<Rightarrow> world \<Rightarrow> bool" where
  "outcome i w = (i < length (radio w) \<and> radio w ! i)"

definition sent_line :: "int \<Rightarrow> string \<Rightarrow> event" where
  "sent_line node message = Log Tx (describe_message message) (Some (NodeId node))"

definition failed_line :: "int \<Rightarrow> string \<Rightarrow> event" where
  "failed_line node message =
     Log Error (''Failed to send '' @ [CHR 0x27] @ describe_message message @ [CHR 0x27]
                @ '' after 3 attempts'') (Some (NodeId node))"

definition attempt_events :: "int \<Rightarrow> string \<Rightarrow> bool \<Rightarrow> event list" where
  "attempt_events node message ok = [MeshUpdate, MeshDhcp, MeshWrite node message ok]"

lemma radio_Nil_update: "radio w = [] \<Longrightarrow> w\<lparr>radio := [], trace := t\<rparr> = w\<lparr>trace := t\<rparr>"
  by (cases w) simp

lemma send_attempts_ok:
  "attempt < 3 \<Longrightarrow> outcome 0 w \<Longrightarrow>
   send_attempts attempt node message w =
     (True, w\<lparr>radio := drop 1 (radio w),
              trace := trace w @ attempt_events node message True @ [sent_line node message]\<rparr>)"
  by (subst send_attempts.simps, cases "radio w")
     (auto simp: outcome_def mesh_write_def mesh_update_def mesh_dhcp_def MESH_NODE_ID_def log_def
                 attempt_events_def sent_line_def)

lemma send_attempts_retry:
  "attempt < 3 \<Longrightarrow> \<not> outcome 0 w \<Longrightarrow>
   send_attempts attempt node message w =
     send_attempts (attempt + 1) node message
       (let w3 = w\<lparr>radio := drop 1 (radio w),
                    trace := trace w @ attempt_events node message False\<rparr>
        in if attempt < 2 then sleep 250 w3 else w3)"
  by (subst send_attempts.simps, cases "radio w")
     (auto simp: outcome_def mesh_write_def mesh_update_def mesh_dhcp_def MESH_NODE_ID_def log_def
                 attempt_events_def Let_def sleep_def radio_Nil_update)

lemma send_attempts_end:
  "send_attempts 3 node message w = (False, w\<lparr>trace := trace w @ [failed_line node message]\<rparr>)"
  by (subst send_attempts.simps) (simp add: log_def failed_line_def)

lemma outcome_drop: "outcome i (w\<lparr>radio := drop k (radio w), trace := t\<rparr>) = outcome (i + k) w"
  by (auto simp: outcome_def add.commute)

lemma outcome_sleep [simp]: "outcome i (sleep ms w) = outcome i w"
  by (simp add: outcome_def sleep_def)

lemma send_message_to_node_unrolled:
  "send_message_to_node node message w =
     (if outcome 0 w then
        (True, w\<lparr>radio := drop 1 (radio w),
                 trace := trace w @ attempt_events node message True @ [sent_line node message]\<rparr>)
      else if outcome 1 w then
        (True, w\<lparr>clock := clock w + 250, radio := drop 2 (radio w),
                 trace := trace w @ attempt_events node message False @ [Sleep 250]
                            @ attempt_events node message True @ [sent_line node message]\<rparr>)
      else if outcome 2 w then
        (True, w\<lparr>clock := clock w + 500, radio := drop 3 (radio w),
                 trace := trace w @ attempt_events node message False @ [Sleep 250]
                            @ attempt_events node message False @ [Sleep 250]
                            @ attempt_events node message True @ [sent_line node message]\<rparr>)
      else
        (False, w\<lparr>clock := clock w + 500, radio := drop 3 (radio w),
                  trace := trace w @ attempt_events node message False @ [Sleep 250]
                             @ attempt_events node message False @ [Sleep 250]
                             @ attempt_events node message False @ [failed_line node message]\<rparr>))"
proof (cases "outcome 0 w")
  case True
  then show ?thesis by (simp add: send_message_to_node_def send_attempts_ok)
next
  case f0: False
  define w1 where "w1 = sleep 250 (w\<lparr>radio := drop 1 (radio w),
                                    trace := trace w @ attempt_events node message False\<rparr>)"
  have s0: "send_message_to_node node message w = send_attempts 1 node message w1"
    using send_attempts_retry[of 0 w node message] f0 by (simp add: send_message_to_node_def w1_def)
  have o1: "outcome 0 w1 = outcome 1 w" by (simp add: w1_def outcome_drop)
  show ?thesis
  proof (cases "outcome 1 w")
    case True
    then show ?thesis using s0 f0 o1 send_attempts_ok[of 1 w1 node message]
      by (simp add: w1_def sleep_def numeral_2_eq_2)
  next
    case f1: False
    define w2 where "w2 = sleep 250 (w1\<lparr>radio := drop 1 (radio w1),
                                       trace := trace w1 @ attempt_events node message False\<rparr>)"
    have s1: "send_attempts 1 node message w1 = send_attempts 2 node message w2"
      using send_attempts_retry[of 1 w1 node message] f1 o1 by (simp add: w2_def numeral_2_eq_2)
    have o2: "outcome 0 w2 = outcome 2 w" by (auto simp: w2_def w1_def outcome_def sleep_def numeral_2_eq_2)
    show ?thesis
    proof (cases "outcome 2 w")
      case True
      then show ?thesis using s0 s1 f0 f1 o2 send_attempts_ok[of 2 w2 node message]
        by (simp add: w2_def w1_def sleep_def numeral_2_eq_2 numeral_3_eq_3)
    next
      case f2: False
      have s2: "send_attempts 2 node message w2 =
                send_attempts 3 node message
                  (w2\<lparr>radio := drop 1 (radio w2), trace := trace w2 @ attempt_events node message False\<rparr>)"
        using send_attempts_retry[of 2 w2 node message] f2 o2 by (simp add: numeral_2_eq_2 numeral_3_eq_3)
      show ?thesis using s0 s1 s2 f0 f1 f2
        by (simp add: send_attempts_end[unfolded numeral_3_eq_3] w2_def w1_def sleep_def numeral_2_eq_2 numeral_3_eq_3)
    qed
  qed
qed

lemma send_message_to_node_keeps [simp]:
  "ac_allowed (snd (send_message_to_node node message w)) = ac_allowed w"
  "connected_clients (snd (send_message_to_node node message w)) = connected_clients w"
  "connect_fail_clients (snd (send_message_to_node node message w)) = connect_fail_clients w"
  "last_known_temp (snd (send_message_to_node node message w)) = last_known_temp w"
  "node_status_last_update (snd (send_message_to_node node message w)) = node_status_last_update w"
  "node_last_heard (snd (send_message_to_node node message w)) = node_last_heard w"
  "waiting_for_ack_state (snd (send_message_to_node node message w)) = waiting_for_ack_state w"
  "last_ping_time (snd (send_message_to_node node message w)) = last_ping_time w"
  "last_temp_received_time (snd (send_message_to_node node message w)) = last_temp_received_time w"
  "warning_printed (snd (send_message_to_node node message w)) = warning_printed w"
  "shutdown_executed (snd (send_message_to_node node message w)) = shutdown_executed w"
  "ac_data (snd (send_message_to_node node message w)) = ac_data w"
  "ac_settings (snd (send_message_to_node node message w)) = ac_settings w"
  "mesh_nodes (snd (send_message_to_node node message w)) = mesh_nodes w"
  "db_faults (snd (send_message_to_node node message w)) = db_faults w"
  "py_float (snd (send_message_to_node node message w)) = py_float w"
  by (simp_all add: send_message_to_node_unrolled)

definition bit_text :: "bool \<Rightarrow> string" where
  "bit_text b = str_int (if b then 1 else 0)"

definition send_settings_to_node :: "world \<Rightarrow> string \<times> world" where
  "send_settings_to_node w =
     (case get_temps w of
        ((max_temp, min_temp), w1) \<Rightarrow>
          (case get_ac_state w1 of
             (ac, w2) \<Rightarrow>
               (let packet = build_packet
                       [(''x'', str_int (fl_int max_temp)), (''n'', str_int (fl_int min_temp)),
                        (''l'', bit_text (ac_allowed w2)), (''a'', bit_text ac)]
                in (packet, snd (send_message_to_node NODE_TEMP_LCD packet w2)))))"

section \<open>AC control functions\<close>

definition toggle_ac_allowed :: "world \<Rightarrow> world" where
  "toggle_ac_allowed w =
     (let w1 = w\<lparr>ac_allowed := \<not> ac_allowed w\<rparr>;
          w2 = snd (save_ac_allowed (ac_allowed w1) w1);
          w3 = log Info (''AC permission '' @ (if ac_allowed w2 then ''enabled'' else ''disabled'')) None w2
      in snd (send_message_to_node NODE_TEMP_LCD (build_packet [(''l'', bit_text (ac_allowed w3))]) w3))"

section \<open>Node health monitoring\<close>

definition ping_node :: "int \<Rightarrow> world \<Rightarrow> world" where
  "ping_node node w =
     (let last_heard = (case node_last_heard w node of Some t \<Rightarrow> t | None \<Rightarrow> 0)
      in if clock w - last_heard < seconds PING_INTERVAL then w
         else
           (case send_message_to_node node (build_packet [(''k'', str_int 1)]) w of
              (False, w1) \<Rightarrow>
                (let w2 = w1\<lparr>connect_fail_clients := connect_fail_clients w1 @ [node]\<rparr>;
                     w3 = (if node \<in> set (connected_clients w2)
                           then w2\<lparr>connected_clients := remove1 node (connected_clients w2)\<rparr>
                           else w2)
                 in mark_node_offline node w3)
            | (True, w1) \<Rightarrow>
                (let w2 = (if node \<notin> set (connected_clients w1)
                           then w1\<lparr>connected_clients := connected_clients w1 @ [node]\<rparr>
                           else w1)
                 in if node \<in> set (connect_fail_clients w2)
                    then w2\<lparr>connect_fail_clients := remove1 node (connect_fail_clients w2)\<rparr>
                    else w2)))"

definition start_waiting_for_ack :: "int \<Rightarrow> int \<Rightarrow> world \<Rightarrow> world" where
  "start_waiting_for_ack node tmo w =
     w\<lparr>waiting_for_ack_state := Some \<lparr>node_id = node, start_time = clock w, timeout = tmo\<rparr>\<rparr>"

text \<open>\<^verbatim>\<open>wait_for_ack\<close>: \<open>Some True\<close> recovered, \<open>Some False\<close> timed out, \<open>None\<close> still waiting.\<close>

definition wait_for_ack :: "world \<Rightarrow> bool option \<times> world" where
  "wait_for_ack w =
     (case waiting_for_ack_state w of
        None \<Rightarrow> (None, w)
      | Some st \<Rightarrow>
          (let elapsed = clock w - start_time st
           in if node_id st \<notin> set (connect_fail_clients w)
                then (Some True, w\<lparr>waiting_for_ack_state := None\<rparr>)
              else if elapsed \<ge> seconds (timeout st)
                then (Some False, w\<lparr>waiting_for_ack_state := None\<rparr>)
              else (None, w)))"

text \<open>\<^verbatim>\<open>handle_failed_clients\<close>: the loop body, then the loop over the failed list.\<close>

definition wait_for_failed :: "world \<Rightarrow> int \<Rightarrow> world" where
  "wait_for_failed w node =
     start_waiting_for_ack node 15 (log Warn (''Waiting for ACK from Node '' @ str_int node) None w)"

definition handle_failed_clients :: "world \<Rightarrow> world" where
  "handle_failed_clients w = foldl wait_for_failed w (connect_fail_clients w)"

text \<open>
  \<^verbatim>\<open>handle_client_disconnection\<close>: \<^verbatim>\<open>connected_clients\<close> holds node numbers and the
  argument is a socket or the text \<^verbatim>\<open>'mobile'\<close>, so the membership test is false.
\<close>

definition handle_client_disconnection :: "origin \<Rightarrow> world \<Rightarrow> world" where
  "handle_client_disconnection client w =
     (case client of
        NodeId n \<Rightarrow>
          (if n \<in> set (connected_clients w)
           then w\<lparr>connected_clients := remove1 n (connected_clients w)\<rparr> else w)
      | Label _ \<Rightarrow> w)"

section \<open>Main event loop\<close>

text \<open>
  The loop body of \<^verbatim>\<open>main\<close> is split into its blocks, in the order of the source.
  \<open>ValueError\<close> is the exception of \<^verbatim>\<open>int(packet["a"])\<close>: nothing in \<^verbatim>\<open>main\<close>
  catches it, so it ends the loop.
\<close>

datatype error = ValueError

text \<open>Temperature monitoring: the warning and the safety shutoff, each latched.\<close>

definition safety_watchdog :: "int \<Rightarrow> world \<Rightarrow> world" where
  "safety_watchdog current_time w =
     (let w1 = (if \<not> warning_printed w
                   \<and> current_time - last_temp_received_time w > seconds TEMP_WARNING_TIMEOUT
                then (log Warn (''No temperature received in '' @ str_int TEMP_WARNING_TIMEOUT @ ''s'') None w)
                       \<lparr>warning_printed := True\<rparr>
                else w)
      in if \<not> shutdown_executed w1
            \<and> current_time - last_temp_received_time w1 > seconds TEMP_SAFETY_TIMEOUT
         then
           (let w2 = log Error ''No temperature in 120s - safety check'' None w1
            in (case get_ac_state w2 of
                  (True, w3) \<Rightarrow>
                    (let w4 = log Error ''Turning off AC due to temp timeout'' None w3;
                         w5 = snd (send_message_to_node NODE_AC_RELAY (build_packet [(''a'', str_int 0)]) w4)
                     in database_log False w5)
                | (False, w3) \<Rightarrow> w3)
               \<lparr>shutdown_executed := True\<rparr>)
         else w1)"

text \<open>
  \<^verbatim>\<open>for client in connected_clients: ping_node(client)\<close>: the list is read by index
  while \<^verbatim>\<open>ping_node\<close> removes from it, as Python's list iterator does.
\<close>

lemma ping_node_length:
  fixes w :: world
  assumes "i < length (connected_clients w)"
  shows "length (connected_clients (ping_node (connected_clients w ! i) w)) \<le> length (connected_clients w)"
proof -
  from assms have mem: "connected_clients w ! i \<in> set (connected_clients w)" by simp
  obtain ok w1 where s: "send_message_to_node (connected_clients w ! i) (build_packet [(''k'', str_int 1)]) w = (ok, w1)"
    by (cases "send_message_to_node (connected_clients w ! i) (build_packet [(''k'', str_int 1)]) w")
  have c1: "connected_clients w1 = connected_clients w"
    using send_message_to_node_keeps(2)[of "connected_clients w ! i" "build_packet [(''k'', str_int 1)]" w] s
    by simp
  show ?thesis
    using mem s c1
    by (auto simp: ping_node_def Let_def mark_node_offline_def get_db_connection_def log_def
                   length_remove1
             split: prod.splits list.splits bool.splits)
qed

function ping_sweep :: "nat \<Rightarrow> world \<Rightarrow> world" where
  "ping_sweep i w =
     (if i < length (connected_clients w)
      then ping_sweep (i + 1) (ping_node (connected_clients w ! i) w)
      else w)"
  by pat_completeness auto
termination
proof (relation "measure (\<lambda>(i, w :: world). length (connected_clients w) - i)")
  show "wf (measure (\<lambda>(i, w :: world). length (connected_clients w) - i))" by simp
next
  fix i and w :: world
  assume "i < length (connected_clients w)"
  then show "((i + 1, ping_node (connected_clients w ! i) w), (i, w))
             \<in> measure (\<lambda>(i, w :: world). length (connected_clients w) - i)"
    using ping_node_length[of i w] by simp
qed

declare ping_sweep.simps [simp del]

definition health_checks :: "int \<Rightarrow> world \<Rightarrow> world" where
  "health_checks current_time w =
     (if current_time - last_ping_time w \<ge> seconds PING_INTERVAL then
        (let w1 = ping_sweep 0 w;
             w2 = w1\<lparr>last_ping_time := current_time\<rparr>
         in if connect_fail_clients w2 \<noteq> [] then handle_failed_clients w2 else w2)
      else w)"

definition ack_poll :: "world \<Rightarrow> world" where
  "ack_poll w =
     (case wait_for_ack w of
        (Some True, w1) \<Rightarrow> log Info ''ACK received, node recovered'' None w1
      | (Some False, w1) \<Rightarrow> log Warn ''ACK timeout - node may be offline'' None w1
      | (None, w1) \<Rightarrow> w1)"

text \<open>
  Processing one mesh message. The payload is the decoded text; the source strips it
  and then removes NUL characters. The node is tracked first, then the packet keys are
  handled in the order of the source.
\<close>

definition clean_payload :: "string \<Rightarrow> string" where
  "clean_payload payload = filter (\<lambda>c. c \<noteq> CHR 0x00) (py_strip payload)"

definition track_node :: "int \<Rightarrow> string \<Rightarrow> world \<Rightarrow> world" where
  "track_node current_node message w =
     (let w1 = log Rx (describe_message message) (Some (NodeId current_node)) w;
          w2 = w1\<lparr>node_last_heard := (node_last_heard w1)(current_node \<mapsto> clock w1)\<rparr>;
          w3 = (if current_node \<notin> set (connected_clients w2)
                then (let w' = w2\<lparr>connected_clients := connected_clients w2 @ [current_node]\<rparr>
                      in log Info (''Node '' @ str_int current_node @ '' joined, clients: ''
                                   @ str_int_list (connected_clients w')) None w')
                else w2);
          w4 = (if current_node \<in> set (connect_fail_clients w3)
                then w3\<lparr>connect_fail_clients := remove1 current_node (connect_fail_clients w3)\<rparr>
                else w3)
      in update_node_status current_node (Some message) w4)"

text \<open>\<^verbatim>\<open>s\<close>: sync request.\<close>

definition main_sync :: "int \<Rightarrow> world \<Rightarrow> world" where
  "main_sync current_node w =
     (let w1 = log Info ''Sync request - sending settings'' (Some (NodeId current_node)) w
      in case get_temps w1 of
           ((max_temp, min_temp), w2) \<Rightarrow>
             (case get_ac_state w2 of
                (ac, w3) \<Rightarrow>
                  (let response = build_packet
                          [(''x'', str_int (if fl_true max_temp then fl_int max_temp else 78)),
                           (''n'', str_int (if fl_true min_temp then fl_int min_temp else 70)),
                           (''l'', bit_text (ac_allowed w3)), (''a'', bit_text ac)]
                   in snd (send_message_to_node current_node response w3))))"

text \<open>\<^verbatim>\<open>t\<close>: temperature update; both watchdog latches are cleared.\<close>

definition main_temp :: "int \<Rightarrow> pydict \<Rightarrow> world \<Rightarrow> world" where
  "main_temp current_node packet w =
     (let w1 = w\<lparr>last_known_temp := Some (dict_get packet ''t''),
                  warning_printed := False,
                  shutdown_executed := False,
                  last_temp_received_time := clock w\<rparr>
      in if \<not> dict_has ''s'' packet then
           (case get_ac_state w1 of
              (ac, w2) \<Rightarrow> snd (send_message_to_node current_node (build_packet [(''a'', bit_text ac)]) w2))
         else w1)"

text \<open>\<^verbatim>\<open>a\<close>: a confirmation from the relay, a command from the keypad.\<close>

definition main_ac_state :: "int \<Rightarrow> pydict \<Rightarrow> world \<Rightarrow> error + world" where
  "main_ac_state current_node packet w =
     (case py_int (dict_get packet ''a'') of
        None \<Rightarrow> Inl ValueError
      | Some v \<Rightarrow>
          (let ac_state = (v = 1)
           in if current_node = NODE_AC_RELAY then Inr (database_log ac_state w)
              else if current_node = NODE_TEMP_LCD then
                (if ac_state then
                   (case send_message_to_node NODE_AC_RELAY (build_packet [(''a'', str_int 1)]) w of
                      (True, w1) \<Rightarrow>
                        Inr (database_log True
                               (snd (send_message_to_node NODE_TEMP_LCD (build_packet [(''a'', str_int 1)]) w1)))
                    | (False, w1) \<Rightarrow>
                        Inr (log Error ''Failed to turn ON AC - AC_Interface not responding'' None w1))
                 else
                   (case send_message_to_node NODE_AC_RELAY (build_packet [(''a'', str_int 0)]) w of
                      (True, w1) \<Rightarrow>
                        Inr (database_log False
                               (snd (send_message_to_node NODE_TEMP_LCD (build_packet [(''a'', str_int 0)]) w1)))
                    | (False, w1) \<Rightarrow>
                        Inr (log Error ''Failed to turn OFF AC - AC_Interface not responding'' None w1)))
              else Inr w))"

text \<open>\<^verbatim>\<open>g\<close>: toggle the permission; when it becomes disabled both nodes are told off.\<close>

definition main_toggle :: "world \<Rightarrow> world" where
  "main_toggle w =
     (let w1 = toggle_ac_allowed w
      in if \<not> ac_allowed w1 then
           (let w2 = snd (send_message_to_node NODE_AC_RELAY (build_packet [(''a'', str_int 0)]) w1);
                w3 = snd (send_message_to_node NODE_TEMP_LCD (build_packet [(''a'', str_int 0)]) w2)
            in database_log False w3)
         else w1)"

text \<open>\<^verbatim>\<open>q\<close>: state query; a missing or stale last event is logged and answered as off.\<close>

definition main_query :: "int \<Rightarrow> world \<Rightarrow> world" where
  "main_query current_node w =
     (let w1 = log Info ''State query - sending AC state'' (Some (NodeId current_node)) w
      in case get_last_ac_state w1 of
           ((last_state, last_timestamp), w2) \<Rightarrow>
             (case (last_state, last_timestamp) of
                (Some st, Some ts) \<Rightarrow>
                  if clock w2 - ts \<le> minutes DB_STALE_THRESHOLD
                  then snd (send_message_to_node current_node (build_packet [(''a'', bit_text st)]) w2)
                  else snd (send_message_to_node current_node (build_packet [(''a'', str_int 0)])
                              (database_log False w2))
              | _ \<Rightarrow>
                  snd (send_message_to_node current_node (build_packet [(''a'', str_int 0)])
                         (database_log False w2))))"

definition dispatch_packet :: "int \<Rightarrow> pydict \<Rightarrow> world \<Rightarrow> error + world" where
  "dispatch_packet current_node packet w =
     (let w1 = (if dict_has ''s'' packet then main_sync current_node w else w);
          w2 = (if dict_has ''t'' packet then main_temp current_node packet w1 else w1)
      in case (if dict_has ''a'' packet \<and> \<not> dict_has ''s'' packet \<and> \<not> dict_has ''t'' packet
               then main_ac_state current_node packet w2 else Inr w2) of
           Inl e \<Rightarrow> Inl e
         | Inr w3 \<Rightarrow>
             (let w4 = (if dict_has ''g'' packet then main_toggle w3 else w3);
                  w5 = (if dict_has ''x'' packet \<and> dict_has ''n'' packet \<and> \<not> dict_has ''s'' packet
                        then snd (save_temps (dict_get packet ''x'') (dict_get packet ''n'') w4)
                        else w4);
                  w6 = (if dict_has ''q'' packet then main_query current_node w5 else w5)
              in Inr w6))"

definition process_frame :: "int \<times> string \<Rightarrow> world \<Rightarrow> error + world" where
  "process_frame frame w =
     (let message = clean_payload (snd frame);
          current_node = fst frame;
          w1 = track_node current_node message w
      in if is_packet message then
           (case parse_packet message of
              Some packet \<Rightarrow> if packet \<noteq> [] then dispatch_packet current_node packet w1 else Inr w1
            | None \<Rightarrow> Inr w1)
         else Inr w1)"

text \<open>\<^verbatim>\<open>while network.available()\<close>: the frames that are there during this drain.\<close>

fun drain_mesh :: "(int \<times> string) list \<Rightarrow> world \<Rightarrow> error + world" where
  "drain_mesh [] w = Inr w"
| "drain_mesh (frame # rest) w =
     (case process_frame frame w of
        Inl e \<Rightarrow> Inl e
      | Inr w1 \<Rightarrow> drain_mesh rest w1)"

text \<open>
  One command from the socket queue: the client's handle and the text it sent. The
  branches are the \<^verbatim>\<open>if\<close>/\<^verbatim>\<open>elif\<close> chain of the source, in its order.
\<close>

definition command_set_brightness :: "nat \<Rightarrow> string \<Rightarrow> world \<Rightarrow> world" where
  "command_set_brightness client_socket user_input w =
     (case py_split CHR '':'' user_input of
        _ # text # _ \<Rightarrow>
          (case py_int text of
             Some v \<Rightarrow>
               (let brightness = max 0 (min 100 v);
                    w1 = snd (send_message_to_node NODE_TEMP_LCD (build_packet [(''b'', str_int brightness)]) w)
                in log Info (''LED brightness set to '' @ str_int brightness @ ''%'') None w1)
           | None \<Rightarrow> send_message_to_client client_socket ''Invalid format: use setBrightness:0-100'' w)
      | _ \<Rightarrow> send_message_to_client client_socket ''Invalid format: use setBrightness:0-100'' w)"

definition command_set_temps :: "nat \<Rightarrow> string \<Rightarrow> world \<Rightarrow> world" where
  "command_set_temps client_socket user_input w =
     (case py_split CHR '':'' user_input of
        [_, temps] \<Rightarrow>
          (case py_split CHR '','' temps of
             [max_temp, min_temp] \<Rightarrow>
               snd (send_settings_to_node (snd (save_temps (py_strip max_temp) (py_strip min_temp) w)))
           | _ \<Rightarrow> send_message_to_client client_socket ''Invalid format: use setTemps:max,min'' w)
      | _ \<Rightarrow> send_message_to_client client_socket ''Invalid format: use setTemps:max,min'' w)"

definition command_status :: "nat \<Rightarrow> world \<Rightarrow> world" where
  "command_status client_socket w =
     (let temp = (case last_known_temp w of Some t \<Rightarrow> if t \<noteq> [] then t else ''---'' | None \<Rightarrow> ''---'')
      in case get_ac_state w of
           (ac_state, w1) \<Rightarrow>
             (case get_temps w1 of
                ((max_temp, min_temp), w2) \<Rightarrow>
                  (case get_known_nodes w2 of
                     (nodes, w3) \<Rightarrow>
                       (let ac_str = (if ac_state then ''ON'' else ''OFF'');
                            max_str = (if fl_true max_temp then fl_str max_temp else ''---'');
                            min_str = (if fl_true min_temp then fl_str min_temp else ''---'');
                            allow_str = (if ac_allowed w3 then ''True'' else ''False'');
                            node_parts = map (\<lambda>n. nr_name n @ ''='' @ nr_status n) nodes;
                            nodes_str = (if node_parts \<noteq> [] then py_join '';'' node_parts else ''---'');
                            status_msg = ''status:temp='' @ temp @ '',ac='' @ ac_str @ '',max='' @ max_str
                                         @ '',min='' @ min_str @ '',allow='' @ allow_str
                                         @ '',nodes='' @ nodes_str
                        in send_message_to_client client_socket status_msg w3))))"

definition main_command :: "nat \<times> string \<Rightarrow> world \<Rightarrow> world" where
  "main_command item w0 =
     (let client_socket = fst item;
          user_input = snd item;
          w = log Rx user_input (Some (Label ''Socket'')) w0
      in if user_input = ''AC_Status'' then
           (case get_last_ac_state w of
              ((last_state, last_timestamp), w1) \<Rightarrow>
                (case (last_state, last_timestamp) of
                   (Some st, Some ts) \<Rightarrow>
                     if clock w1 - ts \<le> minutes DB_STALE_THRESHOLD
                     then send_message_to_client client_socket (if st then ''AC is ON'' else ''AC is OFF'') w1
                     else send_message_to_client client_socket ''AC is OFF'' (database_log False w1)
                 | _ \<Rightarrow> send_message_to_client client_socket ''AC is OFF'' (database_log False w1)))
         else if user_input = ''AC_Perm_Status'' then
           send_message_to_client client_socket (str_bool (ac_allowed w)) w
         else if user_input = ''ToggleAC'' then toggle_ac_allowed w
         else if user_input = ''TurnOnAC'' then
           (case send_message_to_node NODE_AC_RELAY (build_packet [(''a'', str_int 1)]) w of
              (True, w1) \<Rightarrow>
                send_message_to_client client_socket ''AC is ON''
                  (database_log True
                     (snd (send_message_to_node NODE_TEMP_LCD (build_packet [(''a'', str_int 1)]) w1)))
            | (False, w1) \<Rightarrow>
                send_message_to_client client_socket ''Failed - AC_Interface not responding'' w1)
         else if user_input = ''TurnOffAC'' then
           (case send_message_to_node NODE_AC_RELAY (build_packet [(''a'', str_int 0)]) w of
              (True, w1) \<Rightarrow>
                send_message_to_client client_socket ''AC is OFF''
                  (database_log False
                     (snd (send_message_to_node NODE_TEMP_LCD (build_packet [(''a'', str_int 0)]) w1)))
            | (False, w1) \<Rightarrow>
                send_message_to_client client_socket ''Failed - AC_Interface not responding'' w1)
         else if user_input = ''getTemps'' then
           (case get_temps w of
              ((max_temp, min_temp), w1) \<Rightarrow>
                send_message_to_client client_socket
                  (''Temps:'' @ fl_str max_temp @ '','' @ fl_str min_temp) w1)
         else if user_input = ''ResetNode'' then
           (case send_message_to_node NODE_AC_RELAY (build_packet [(''r'', str_int 1)]) w of
              (success, w1) \<Rightarrow>
                send_message_to_client client_socket
                  (if success then ''ResetNode Success'' else ''ResetNode Failed'') w1)
         else if user_input = ''current_temp'' then
           send_message_to_client client_socket
             (case last_known_temp w of Some t \<Rightarrow> if t \<noteq> [] then t else ''---'' | None \<Rightarrow> ''---'') w
         else if user_input = ''shut_down'' then
           handle_client_disconnection (Label ''mobile'') (log Info ''Socket client disconnected'' None w)
         else if py_startswith user_input ''setBrightness:'' then
           command_set_brightness client_socket user_input w
         else if py_startswith user_input ''setTemps:'' then
           command_set_temps client_socket user_input w
         else if user_input = ''status'' then command_status client_socket w
         else send_message_to_client client_socket (''Unknown command: '' @ user_input) w)"

text \<open>\<^verbatim>\<open>while not message_queue.empty()\<close>: the commands that are there during this drain.\<close>

fun drain_queue :: "(nat \<times> string) list \<Rightarrow> world \<Rightarrow> world" where
  "drain_queue [] w = w"
| "drain_queue (item # rest) w = drain_queue rest (main_command item w)"

text \<open>
  What one iteration of \<^verbatim>\<open>while True\<close> meets: the time gone since the previous
  iteration, the mesh frames (sender and decoded payload) and the queued commands.
\<close>

record inputs =
  elapsed :: nat
  frames :: "(int \<times> string) list"
  commands :: "(nat \<times> string) list"

definition main_iteration :: "inputs \<Rightarrow> world \<Rightarrow> error + world" where
  "main_iteration inp w0 =
     (let w = w0\<lparr>clock := clock w0 + int (elapsed inp)\<rparr>;
          current_time = clock w;
          w1 = safety_watchdog current_time w;
          w2 = health_checks current_time w1;
          w3 = ack_poll w2;
          w4 = mesh_update w3;
          w5 = (if MESH_NODE_ID = 0 then mesh_dhcp w4 else w4)
      in case drain_mesh (frames inp) w5 of
           Inl e \<Rightarrow> Inl e
         | Inr w6 \<Rightarrow> Inr (drain_queue (commands inp) w6))"

text \<open>The iterations of the loop, one after the other, until one raises.\<close>

fun main_loop :: "inputs list \<Rightarrow> world \<Rightarrow> error + world" where
  "main_loop [] w = Inr w"
| "main_loop (inp # rest) w =
     (case main_iteration inp w of
        Inl e \<Rightarrow> Inl e
      | Inr w1 \<Rightarrow> main_loop rest w1)"

text \<open>
  The module's globals as they are initialised, and the part of \<^verbatim>\<open>main\<close> before
  the loop. The argument gives the database and the environment.
\<close>

definition startup :: "world \<Rightarrow> world" where
  "startup env =
     (let w = env\<lparr>ac_allowed := False, connected_clients := [], connect_fail_clients := [],
                  last_known_temp := None, node_status_last_update := Map.empty,
                  node_last_heard := Map.empty, waiting_for_ack_state := None\<rparr>
      in case get_ac_allowed w of
           (allowed, w1) \<Rightarrow>
             (let w2 = log Info (''AC permission loaded: '' @ (if allowed then ''enabled'' else ''disabled'')) None
                         (w1\<lparr>ac_allowed := allowed\<rparr>)
              in case get_known_nodes w2 of
                   (known_nodes, w3) \<Rightarrow>
                     (let w4 = (if known_nodes \<noteq> []
                                then log Info ''Waiting for nodes to check in...'' None
                                       (log Info (''Known nodes: '' @ str_name_list (map nr_name known_nodes)) None w3)
                                else w3)
                      in w4\<lparr>last_ping_time := clock w4, last_temp_received_time := clock w4,
                            warning_printed := False, shutdown_executed := False\<rparr>)))"

section \<open>Notions used in the statements\<close>

text \<open>
  A frame as the round trip needs it: every key is one character other than the
  separator, every value is non-empty and free of the separator.
\<close>

definition well_framed :: "pydict \<Rightarrow> bool" where
  "well_framed f =
     (\<forall>(k, v) \<in> set f. length k = 1 \<and> k \<noteq> '','' \<and> v \<noteq> [] \<and> CHR '','' \<notin> set v)"

text \<open>
  Reading a trace: the events a step has added, the radio writes and the pauses among
  them, whether every write comes right after a re-synchronisation
  (\<^verbatim>\<open>mesh.update()\<close> then \<^verbatim>\<open>mesh.dhcp()\<close>), and whether two writes always have a
  pause between them.
\<close>

definition new_events :: "world \<Rightarrow> world \<Rightarrow> event list" where
  "new_events w w' = drop (length (trace w)) (trace w')"

fun is_write :: "event \<Rightarrow> bool" where
  "is_write (MeshWrite node message ok) = True"
| "is_write e = False"


definition writes :: "event list \<Rightarrow> event list" where
  "writes es = filter is_write es"



text \<open>An example state for the concrete instances: nothing known, nothing pending.\<close>

definition idle_world :: world where
  "idle_world =
     \<lparr>ac_allowed = False, connected_clients = [], connect_fail_clients = [],
      last_known_temp = None, node_status_last_update = Map.empty, node_last_heard = Map.empty,
      waiting_for_ack_state = None, last_ping_time = 0, last_temp_received_time = 0,
      warning_printed = False, shutdown_executed = False, ac_data = [],
      ac_settings = Map.empty, mesh_nodes = [], clock = 0, radio = [], db_faults = [],
      py_float = (\<lambda>s. None), trace = []\<rparr>"


definition grows :: "world \<Rightarrow> world \<Rightarrow> bool" where
  "grows w w' = (trace w' = trace w @ new_events w w')"

definition db_up :: "world \<Rightarrow> bool" where
  "db_up w = (case db_faults w of [] \<Rightarrow> True | f # fs \<Rightarrow> \<not> f)"

definition db_next :: "world \<Rightarrow> world" where
  "db_next w = w\<lparr>db_faults := tl (db_faults w)\<rparr>"

definition last_state_of :: "world \<Rightarrow> bool option" where
  "last_state_of w = map_option snd (latest_row (ac_data w))"

definition forced_off_line :: "event \<Rightarrow> bool" where
  "forced_off_line e = (e = Log Error ''Turning off AC due to temp timeout'' None)"

definition forced_offs :: "world \<Rightarrow> nat" where
  "forced_offs w = length (filter forced_off_line (trace w))"

definition membership :: "world \<Rightarrow> int list \<times> int list" where
  "membership w = (connected_clients w, connect_fail_clients w)"

definition latches :: "world \<Rightarrow> bool \<times> bool \<times> nat" where
  "latches w = (warning_printed w, shutdown_executed w, forced_offs w)"

text \<open>
  A run for the concrete instances: one iteration, a second after the start, in which
  node 2 sends a heartbeat.
\<close>

definition heartbeat_run :: "inputs list" where
  "heartbeat_run = [\<lparr>elapsed = 1000, frames = [(2, ''k1'')], commands = []\<rparr>]"

text \<open>
  The invariant of the two lists: neither has a node twice and they share no node.
\<close>

definition separate :: "world \<Rightarrow> bool" where
  "separate w =
     (distinct (connected_clients w) \<and> distinct (connect_fail_clients w)
      \<and> set (connected_clients w) \<inter> set (connect_fail_clients w) = {})"

section \<open>The packet codec\<close>

lemma py_split_no_sep: "c \<notin> set s \<Longrightarrow> py_split c s = [s]"
  by (induction s) auto

lemma py_split_append: "c \<notin> set s \<Longrightarrow> py_split c (s @ c # rest) = s # py_split c rest"
  by (induction s) auto

lemma py_split_join:
  "segs \<noteq> [] \<Longrightarrow> \<forall>s \<in> set segs. c \<notin> set s \<Longrightarrow> py_split c (py_join [c] segs) = segs"
proof (induction segs)
  case Nil
  then show ?case by simp
next
  case (Cons p ps)
  show ?case
  proof (cases ps)
    case Nil
    with Cons.prems show ?thesis by (simp add: py_split_no_sep)
  next
    case (Cons q qs)
    with Cons.prems Cons.IH show ?thesis by (simp add: py_split_append)
  qed
qed

lemma dict_set_fresh: "k \<notin> fst ` set d \<Longrightarrow> dict_set k v d = d @ [(k, v)]"
  by (induction d) auto

lemma parse_pairs_build:
  "well_framed f \<Longrightarrow> distinct (map fst (acc @ f)) \<Longrightarrow>
   parse_pairs (map (\<lambda>(k, v). k @ v) f) acc = acc @ f"
proof (induction f arbitrary: acc)
  case Nil
  then show ?case by simp
next
  case (Cons p f)
  obtain k v where p: "p = (k, v)" by (cases p)
  from Cons.prems(1) p obtain c where k: "k = [c]" and v: "v \<noteq> []"
    by (auto simp: well_framed_def length_Suc_conv)
  have fresh: "k \<notin> fst ` set acc" using Cons.prems(2) p by auto
  have wf: "well_framed f" using Cons.prems(1) by (simp add: well_framed_def)
  have d: "distinct (map fst ((acc @ [(k, v)]) @ f))" using Cons.prems(2) p by simp
  have len: "length (k @ v) \<ge> 2" using k v by (cases v) auto
  have "parse_pairs (map (\<lambda>(k, v). k @ v) (p # f)) acc
        = parse_pairs (map (\<lambda>(k, v). k @ v) f) (dict_set k v acc)"
    using len k p by simp
  also have "\<dots> = (acc @ [(k, v)]) @ f"
    using Cons.IH[OF wf d] by (simp add: dict_set_fresh[OF fresh])
  finally show ?case using p by simp
qed

text \<open>
  Claim C4, as the code has it. \<^verbatim>\<open>parse_packet(build_packet(f))\<close> gives \<open>f\<close> back
  when \<open>f\<close> is not empty, its keys are distinct single characters other than the
  separator, its values are non-empty and free of the separator, and the text starts
  as \<^verbatim>\<open>is_packet\<close> asks: the first key is a letter and the first value starts with a
  digit or a minus sign.
\<close>

theorem parse_build_roundtrip:
  assumes "f \<noteq> []" and "distinct (map fst f)" and "well_framed f"
    and "py_isalpha (hd (fst (hd f)))"
    and "py_isdigit (hd (snd (hd f))) \<or> hd (snd (hd f)) = CHR ''-''"
  shows "parse_packet (build_packet f) = Some f"
proof -
  let ?segs = "map (\<lambda>(k, v). k @ v) f"
  have segs_ne: "?segs \<noteq> []" using assms(1) by simp
  have nosep: "\<forall>s \<in> set ?segs. CHR '','' \<notin> set s"
    using assms(3) by (auto simp: well_framed_def length_Suc_conv)
  have split: "py_split CHR '','' (build_packet f) = ?segs"
    unfolding build_packet_def using py_split_join[OF segs_ne nosep] by simp
  obtain k v rest where f: "f = (k, v) # rest" using assms(1) by (cases f) auto
  obtain c where k: "k = [c]" using assms(3) f by (auto simp: well_framed_def length_Suc_conv)
  obtain d vs where v: "v = d # vs" using assms(3) f by (cases v) (auto simp: well_framed_def)
  have "build_packet f =
          c # d # (vs @ (case rest of [] \<Rightarrow> []
                          | _ \<Rightarrow> '','' @ py_join '','' (map (\<lambda>(k, v). k @ v) rest)))"
    unfolding build_packet_def f k v by (cases rest) auto
  then have pk: "is_packet (build_packet f)"
    using assms(4,5) f k v by (simp add: is_packet_def)
  show ?thesis
    unfolding parse_packet_def using pk split parse_pairs_build[OF assms(3), of "[]"] assms(2)
    by simp
qed

theorem parse_build_roundtrip_witness:
  "[(''t'', ''62.5''), (''h'', ''45.2'')] \<noteq> []
   \<and> distinct (map fst [(''t'', ''62.5''), (''h'', ''45.2'')])
   \<and> well_framed [(''t'', ''62.5''), (''h'', ''45.2'')]
   \<and> py_isalpha (hd (fst (hd [(''t'', ''62.5''), (''h'', ''45.2'')])))
   \<and> py_isdigit (hd (snd (hd [(''t'', ''62.5''), (''h'', ''45.2'')])))
   \<and> parse_packet (build_packet [(''t'', ''62.5''), (''h'', ''45.2'')])
       = Some [(''t'', ''62.5''), (''h'', ''45.2'')]"
  using parse_build_roundtrip[of "[(''t'', ''62.5''), (''h'', ''45.2'')]"]
  by (simp add: well_framed_def py_isalpha_def py_isdigit_def)

text \<open>
  Claim C4 as stated fails: the frame \<^verbatim>\<open>{"a": "on"}\<close> has no separator in its value,
  yet its text \<^verbatim>\<open>aon\<close> is not a packet and decoding gives \<^verbatim>\<open>None\<close>; the frame
  \<^verbatim>\<open>{"a": "1", "l": ""}\<close> loses the key with the empty value.
\<close>

theorem parse_build_roundtrip_counterexample:
  "CHR '','' \<notin> set ''on''
   \<and> parse_packet (build_packet [(''a'', ''on'')]) = None
   \<and> parse_packet (build_packet [(''a'', ''1''), (''l'', [])]) = Some [(''a'', ''1'')]"
  by (simp add: parse_packet_def build_packet_def is_packet_def py_isalpha_def py_isdigit_def)

section \<open>Bounded retry of a send\<close>










section \<open>Frame facts: what each operation leaves alone\<close>

lemma growsI: "trace w' = trace w @ es \<Longrightarrow> grows w w'"
  by (simp add: grows_def new_events_def)

lemma new_eventsI: "trace w' = trace w @ es \<Longrightarrow> new_events w w' = es"
  by (simp add: new_events_def)

lemma grows_refl [simp]: "grows w w"
  by (simp add: grows_def new_events_def)

lemma new_events_refl [simp]: "new_events w w = []"
  by (simp add: new_events_def)

lemma grows_trans: "grows w w1 \<Longrightarrow> grows w1 w2 \<Longrightarrow> grows w w2"
  unfolding grows_def by (metis append.assoc new_eventsI)

lemma new_events_trans:
  "grows w w1 \<Longrightarrow> grows w1 w2 \<Longrightarrow> new_events w w2 = new_events w w1 @ new_events w1 w2"
  unfolding grows_def by (metis append.assoc new_eventsI)

lemma writes_append [simp]: "writes (a @ b) = writes a @ writes b"
  by (simp add: writes_def)

lemma writes_Nil [simp]: "writes [] = []"
  by (simp add: writes_def)

lemma writes_Cons: "writes (e # es) = (if is_write e then e # writes es else writes es)"
  by (simp add: writes_def)

lemma get_db_connection_eq: "get_db_connection w = (db_up w, db_next w)"
proof (cases "db_faults w")
  case Nil
  then have "w\<lparr>db_faults := []\<rparr> = w" by (cases w) simp
  with Nil show ?thesis by (simp add: get_db_connection_def db_up_def db_next_def)
next
  case (Cons f fs)
  then show ?thesis by (simp add: get_db_connection_def db_up_def db_next_def)
qed

lemma db_next_fields [simp]:
  "trace (db_next w) = trace w" "ac_data (db_next w) = ac_data w" "clock (db_next w) = clock w"
  "radio (db_next w) = radio w" "db_faults (db_next w) = tl (db_faults w)"
  "connected_clients (db_next w) = connected_clients w"
  "connect_fail_clients (db_next w) = connect_fail_clients w"
  "warning_printed (db_next w) = warning_printed w"
  "shutdown_executed (db_next w) = shutdown_executed w"
  "ac_allowed (db_next w) = ac_allowed w"
  "last_temp_received_time (db_next w) = last_temp_received_time w"
  "waiting_for_ack_state (db_next w) = waiting_for_ack_state w"
  by (simp_all add: db_next_def)

lemma get_last_ac_state_up:
  "db_up w \<Longrightarrow> get_last_ac_state w =
     ((last_state_of w, map_option fst (latest_row (ac_data w))), db_next w)"
  by (simp add: get_last_ac_state_def get_db_connection_eq last_state_of_def split: option.splits prod.splits)

lemma get_ac_state_up:
  "db_up w \<Longrightarrow> get_ac_state w = (last_state_of w = Some True, db_next w)"
  by (auto simp: get_ac_state_def get_db_connection_eq last_state_of_def split: option.splits prod.splits)

lemma database_log_same:
  "db_up w \<Longrightarrow> last_state_of w = Some s \<Longrightarrow> database_log s w = db_next w"
  by (simp add: database_log_def get_last_ac_state_up)

lemma database_log_insert:
  "db_up w \<Longrightarrow> db_up (db_next w) \<Longrightarrow> last_state_of w \<noteq> Some s \<Longrightarrow>
   database_log s w =
     log Db (''AC state logged: '' @ (if s then ''ON'' else ''OFF'')) None
       ((db_next (db_next w))\<lparr>ac_data := ac_data w @ [(clock w, s)]\<rparr>)"
  by (simp add: database_log_def get_last_ac_state_up get_db_connection_eq)

lemma database_log_silent:
  "grows w (database_log s w) \<and> writes (new_events w (database_log s w)) = []"
proof -
  have "\<exists>es. trace (database_log s w) = trace w @ es \<and> writes es = []"
    by (auto simp: database_log_def get_last_ac_state_def get_db_connection_eq log_def writes_Cons
             split: option.splits prod.splits bool.splits)
  then show ?thesis by (metis growsI new_eventsI)
qed

lemma log_membership [simp]: "membership (log lvl message node w) = membership w"
  by (simp add: log_def membership_def)

lemma log_latches:
  "\<not> forced_off_line (Log lvl message node) \<Longrightarrow> latches (log lvl message node w) = latches w"
  by (simp add: log_def latches_def forced_offs_def)

lemma not_forced [simp]:
  "lvl \<noteq> Error \<Longrightarrow> \<not> forced_off_line (Log lvl message node)"
  "node \<noteq> None \<Longrightarrow> \<not> forced_off_line (Log lvl message node)"
  "message \<noteq> ''Turning off AC due to temp timeout'' \<Longrightarrow> \<not> forced_off_line (Log lvl message node)"
  "\<not> forced_off_line MeshUpdate" "\<not> forced_off_line MeshDhcp"
  "\<not> forced_off_line (MeshWrite n m ok)" "\<not> forced_off_line (Sleep ms)"
  "\<not> forced_off_line (ClientSend c t)"
  by (simp_all add: forced_off_line_def)

lemma prim_membership [simp]:
  "membership (sleep ms w) = membership w"
  "membership (mesh_update w) = membership w"
  "membership (mesh_dhcp w) = membership w"
  "membership (send_message_to_client c t w) = membership w"
  "membership (db_next w) = membership w"
  by (simp_all add: membership_def sleep_def mesh_update_def mesh_dhcp_def send_message_to_client_def)

lemma prim_latches [simp]:
  "latches (sleep ms w) = latches w"
  "latches (mesh_update w) = latches w"
  "latches (mesh_dhcp w) = latches w"
  "latches (send_message_to_client c t w) = latches w"
  "latches (db_next w) = latches w"
  by (simp_all add: latches_def forced_offs_def sleep_def mesh_update_def mesh_dhcp_def
      send_message_to_client_def)

lemma send_membership [simp]:
  "membership (snd (send_message_to_node node message w)) = membership w"
  by (simp add: membership_def)

lemma send_latches [simp]:
  "latches (snd (send_message_to_node node message w)) = latches w"
  by (simp add: send_message_to_node_unrolled latches_def forced_offs_def attempt_events_def
      sent_line_def failed_line_def)

lemma get_last_ac_state_keeps [simp]:
  "membership (snd (get_last_ac_state w)) = membership w"
  "latches (snd (get_last_ac_state w)) = latches w"
  by (simp_all add: get_last_ac_state_def get_db_connection_eq log_latches
      split: option.splits prod.splits bool.splits)

lemma get_ac_state_keeps [simp]:
  "membership (snd (get_ac_state w)) = membership w"
  "latches (snd (get_ac_state w)) = latches w"
  by (simp_all add: get_ac_state_def get_db_connection_eq log_latches
      split: option.splits prod.splits bool.splits)

lemma ac_data_update_keeps [simp]:
  "membership (w\<lparr>ac_data := d\<rparr>) = membership w"
  "latches (w\<lparr>ac_data := d\<rparr>) = latches w"
  "membership (w\<lparr>ac_settings := s\<rparr>) = membership w"
  "latches (w\<lparr>ac_settings := s\<rparr>) = latches w"
  "membership (w\<lparr>mesh_nodes := m, node_status_last_update := u\<rparr>) = membership w"
  "latches (w\<lparr>mesh_nodes := m, node_status_last_update := u\<rparr>) = latches w"
  "membership (w\<lparr>mesh_nodes := m\<rparr>) = membership w"
  "latches (w\<lparr>mesh_nodes := m\<rparr>) = latches w"
  "membership (w\<lparr>ac_allowed := b\<rparr>) = membership w"
  "latches (w\<lparr>ac_allowed := b\<rparr>) = latches w"
  "membership (w\<lparr>waiting_for_ack_state := a\<rparr>) = membership w"
  "latches (w\<lparr>waiting_for_ack_state := a\<rparr>) = latches w"
  "membership (w\<lparr>last_ping_time := t\<rparr>) = membership w"
  "latches (w\<lparr>last_ping_time := t\<rparr>) = latches w"
  "membership (w\<lparr>clock := t\<rparr>) = membership w"
  "latches (w\<lparr>clock := t\<rparr>) = latches w"
  "membership (w\<lparr>node_last_heard := h\<rparr>) = membership w"
  "latches (w\<lparr>node_last_heard := h\<rparr>) = latches w"
  by (simp_all add: membership_def latches_def forced_offs_def)

lemma database_log_keeps [simp]:
  "membership (database_log s w) = membership w"
  "latches (database_log s w) = latches w"
  by (simp_all add: database_log_def get_db_connection_eq log_latches split_beta
      split: option.splits prod.splits bool.splits)

lemma save_temps_keeps [simp]:
  "membership (snd (save_temps a b w)) = membership w"
  "latches (snd (save_temps a b w)) = latches w"
  by (simp_all add: save_temps_def get_db_connection_eq log_latches
      split: option.splits prod.splits bool.splits)

lemma get_temps_keeps [simp]:
  "membership (snd (get_temps w)) = membership w"
  "latches (snd (get_temps w)) = latches w"
  by (simp_all add: get_temps_def get_db_connection_eq log_latches Let_def
      split: option.splits prod.splits bool.splits)

lemma save_ac_allowed_keeps [simp]:
  "membership (snd (save_ac_allowed b w)) = membership w"
  "latches (snd (save_ac_allowed b w)) = latches w"
  by (simp_all add: save_ac_allowed_def get_db_connection_eq log_latches
      split: option.splits prod.splits bool.splits)

lemma get_ac_allowed_keeps [simp]:
  "membership (snd (get_ac_allowed w)) = membership w"
  "latches (snd (get_ac_allowed w)) = latches w"
  by (simp_all add: get_ac_allowed_def get_db_connection_eq log_latches
      split: option.splits prod.splits bool.splits)

lemma update_node_status_keeps [simp]:
  "membership (update_node_status node message w) = membership w"
  "latches (update_node_status node message w) = latches w"
  by (simp_all add: update_node_status_def get_db_connection_eq log_latches Let_def
      split: option.splits prod.splits bool.splits)

lemma mark_node_offline_keeps [simp]:
  "membership (mark_node_offline node w) = membership w"
  "latches (mark_node_offline node w) = latches w"
  by (simp_all add: mark_node_offline_def get_db_connection_eq log_latches
      split: option.splits prod.splits bool.splits)

lemma get_known_nodes_keeps [simp]:
  "membership (snd (get_known_nodes w)) = membership w"
  "latches (snd (get_known_nodes w)) = latches w"
  by (simp_all add: get_known_nodes_def get_db_connection_eq log_latches
      split: option.splits prod.splits bool.splits)

lemma send_settings_to_node_keeps [simp]:
  "membership (snd (send_settings_to_node w)) = membership w"
  "latches (snd (send_settings_to_node w)) = latches w"
  by (simp_all add: send_settings_to_node_def split_beta Let_def
      split: option.splits prod.splits bool.splits)

lemma toggle_ac_allowed_keeps [simp]:
  "membership (toggle_ac_allowed w) = membership w"
  "latches (toggle_ac_allowed w) = latches w"
  by (simp_all add: toggle_ac_allowed_def Let_def log_latches
      split: option.splits prod.splits bool.splits)

lemma set_updates_latches [simp]:
  "latches (w\<lparr>connected_clients := c\<rparr>) = latches w"
  "latches (w\<lparr>connect_fail_clients := f\<rparr>) = latches w"
  "membership (w\<lparr>warning_printed := b\<rparr>) = membership w"
  "membership (w\<lparr>shutdown_executed := b\<rparr>) = membership w"
  "membership (w\<lparr>last_known_temp := t, warning_printed := b1, shutdown_executed := b2,
                 last_temp_received_time := t'\<rparr>) = membership w"
  by (simp_all add: membership_def latches_def forced_offs_def)

lemma ping_node_latches [simp]: "latches (ping_node node w) = latches w"
  by (simp add: ping_node_def Let_def split_beta split: bool.splits)

lemma start_waiting_for_ack_keeps [simp]:
  "membership (start_waiting_for_ack node tmo w) = membership w"
  "latches (start_waiting_for_ack node tmo w) = latches w"
  by (simp_all add: start_waiting_for_ack_def)

lemma wait_for_ack_keeps [simp]:
  "membership (snd (wait_for_ack w)) = membership w"
  "latches (snd (wait_for_ack w)) = latches w"
  by (simp_all add: wait_for_ack_def Let_def split: option.splits)

lemma wait_for_failed_keeps [simp]:
  "membership (wait_for_failed w node) = membership w"
  "latches (wait_for_failed w node) = latches w"
  by (simp_all add: wait_for_failed_def log_latches)

lemma handle_failed_clients_fold:
  "membership (foldl wait_for_failed w ns) = membership w
   \<and> latches (foldl wait_for_failed w ns) = latches w"
  by (induction ns arbitrary: w) simp_all

lemma handle_failed_clients_keeps [simp]:
  "membership (handle_failed_clients w) = membership w"
  "latches (handle_failed_clients w) = latches w"
  by (simp_all add: handle_failed_clients_def handle_failed_clients_fold)

lemma handle_client_disconnection_keeps [simp]:
  "membership (handle_client_disconnection (Label l) w) = membership w"
  "latches (handle_client_disconnection c w) = latches w"
  by (simp_all add: handle_client_disconnection_def split: origin.splits)

lemma safety_watchdog_membership [simp]:
  "membership (safety_watchdog current_time w) = membership w"
  by (simp add: safety_watchdog_def Let_def split_beta split: bool.splits)

lemma ping_sweep_latches [simp]: "latches (ping_sweep i w) = latches w"
proof (induction i w rule: ping_sweep.induct)
  case (1 i w)
  show ?case
  proof (cases "i < length (connected_clients w)")
    case True
    then show ?thesis using "1.IH" by (subst ping_sweep.simps) simp
  next
    case False
    then show ?thesis by (subst ping_sweep.simps) simp
  qed
qed

lemma health_checks_latches [simp]: "latches (health_checks current_time w) = latches w"
  by (simp add: health_checks_def Let_def)

lemma ack_poll_keeps [simp]:
  "membership (ack_poll w) = membership w"
  "latches (ack_poll w) = latches w"
  by (simp_all add: ack_poll_def split_beta log_latches split: option.splits bool.splits)

lemma track_node_latches [simp]: "latches (track_node node message w) = latches w"
  by (simp add: track_node_def Let_def log_latches)

lemma main_sync_keeps [simp]:
  "membership (main_sync node w) = membership w"
  "latches (main_sync node w) = latches w"
  by (simp_all add: main_sync_def Let_def split_beta log_latches)

lemma main_temp_membership [simp]: "membership (main_temp node packet w) = membership w"
  by (simp add: main_temp_def Let_def split_beta)

lemma main_ac_state_keeps:
  "main_ac_state node packet w = Inr w' \<Longrightarrow> membership w' = membership w \<and> latches w' = latches w"
  by (auto simp: main_ac_state_def Let_def split_beta log_latches
           split: option.splits bool.splits if_splits)

lemma main_toggle_keeps [simp]:
  "membership (main_toggle w) = membership w"
  "latches (main_toggle w) = latches w"
  by (simp_all add: main_toggle_def Let_def)

lemma main_query_keeps [simp]:
  "membership (main_query node w) = membership w"
  "latches (main_query node w) = latches w"
  by (simp_all add: main_query_def Let_def split_beta log_latches split: option.splits)

lemma dispatch_packet_membership:
  "dispatch_packet node packet w = Inr w' \<Longrightarrow> membership w' = membership w"
  by (auto simp: dispatch_packet_def Let_def split: sum.splits if_splits dest!: main_ac_state_keeps)

lemma dispatch_packet_latches:
  "\<not> dict_has ''t'' packet \<Longrightarrow> dispatch_packet node packet w = Inr w' \<Longrightarrow> latches w' = latches w"
  by (auto simp: dispatch_packet_def Let_def split: sum.splits if_splits dest!: main_ac_state_keeps)

lemma command_set_brightness_keeps [simp]:
  "membership (command_set_brightness c t w) = membership w"
  "latches (command_set_brightness c t w) = latches w"
  by (simp_all add: command_set_brightness_def Let_def log_latches split: list.splits option.splits)

lemma command_set_temps_keeps [simp]:
  "membership (command_set_temps c t w) = membership w"
  "latches (command_set_temps c t w) = latches w"
  by (simp_all add: command_set_temps_def split: list.splits)

lemma command_status_keeps [simp]:
  "membership (command_status c w) = membership w"
  "latches (command_status c w) = latches w"
  by (simp_all add: command_status_def Let_def split_beta)

lemma main_command_keeps [simp]:
  "membership (main_command item w) = membership w"
  "latches (main_command item w) = latches w"
  by (simp_all add: main_command_def Let_def split_beta log_latches
      split: option.splits bool.splits)

lemma drain_queue_keeps [simp]:
  "membership (drain_queue items w) = membership w"
  "latches (drain_queue items w) = latches w"
  by (induction items arbitrary: w) simp_all

section \<open>Connected and failed nodes\<close>

lemma separate_alt:
  "separate w = (case membership w of (c, f) \<Rightarrow> distinct c \<and> distinct f \<and> set c \<inter> set f = {})"
  by (simp add: membership_def separate_def)

lemma membership_fields:
  "membership w' = membership w \<Longrightarrow> connected_clients w' = connected_clients w"
  "membership w' = membership w \<Longrightarrow> connect_fail_clients w' = connect_fail_clients w"
  by (simp_all add: membership_def)

lemma mark_node_offline_sets [simp]:
  "connected_clients (mark_node_offline node w) = connected_clients w"
  "connect_fail_clients (mark_node_offline node w) = connect_fail_clients w"
  using mark_node_offline_keeps(1)[of node w] by (simp_all add: membership_def)

lemma update_node_status_sets [simp]:
  "connected_clients (update_node_status node message w) = connected_clients w"
  "connect_fail_clients (update_node_status node message w) = connect_fail_clients w"
  using update_node_status_keeps(1)[of node message w] by (simp_all add: membership_def)

lemma ping_node_separate:
  assumes "separate w" and "node \<in> set (connected_clients w)"
  shows "separate (ping_node node w)"
  using assms
  by (auto simp: ping_node_def separate_def Let_def split_beta split: bool.splits)

lemma track_node_separate:
  assumes "separate w"
  shows "separate (track_node node message w)"
  using assms
  by (auto simp: track_node_def separate_def Let_def log_def)

lemma ping_sweep_separate: "separate w \<Longrightarrow> separate (ping_sweep i w)"
proof (induction i w rule: ping_sweep.induct)
  case (1 i w)
  show ?case
  proof (cases "i < length (connected_clients w)")
    case True
    then have "separate (ping_node (connected_clients w ! i) w)"
      using "1.prems" by (intro ping_node_separate) simp_all
    then show ?thesis using True "1.IH" by (subst ping_sweep.simps) simp
  next
    case False
    then show ?thesis using "1.prems" by (subst ping_sweep.simps) simp
  qed
qed

lemma health_checks_separate: "separate w \<Longrightarrow> separate (health_checks current_time w)"
proof -
  assume s: "separate w"
  have a: "separate ((ping_sweep 0 w)\<lparr>last_ping_time := current_time\<rparr>)"
    using ping_sweep_separate[OF s, of 0] by (simp add: separate_alt)
  show ?thesis
    using s a by (simp add: health_checks_def Let_def separate_alt)
qed

lemma process_frame_cases:
  assumes "process_frame frame w = Inr w'"
  shows "w' = track_node (fst frame) (clean_payload (snd frame)) w
         \<or> (\<exists>packet. parse_packet (clean_payload (snd frame)) = Some packet
                \<and> dispatch_packet (fst frame) packet
                     (track_node (fst frame) (clean_payload (snd frame)) w) = Inr w')"
  using assms by (simp add: process_frame_def Let_def split: if_splits option.splits)

lemma process_frame_separate:
  assumes "separate w" and "process_frame frame w = Inr w'"
  shows "separate w'"
proof -
  have t: "separate (track_node (fst frame) (clean_payload (snd frame)) w)"
    by (rule track_node_separate[OF assms(1)])
  from process_frame_cases[OF assms(2)] show ?thesis
  proof
    assume "w' = track_node (fst frame) (clean_payload (snd frame)) w"
    with t show ?thesis by simp
  next
    assume "\<exists>packet. parse_packet (clean_payload (snd frame)) = Some packet
                \<and> dispatch_packet (fst frame) packet
                     (track_node (fst frame) (clean_payload (snd frame)) w) = Inr w'"
    then obtain packet where "dispatch_packet (fst frame) packet
                     (track_node (fst frame) (clean_payload (snd frame)) w) = Inr w'" by blast
    from dispatch_packet_membership[OF this] t show ?thesis by (simp add: separate_alt)
  qed
qed

lemma drain_mesh_separate:
  "separate w \<Longrightarrow> drain_mesh fs w = Inr w' \<Longrightarrow> separate w'"
proof (induction fs arbitrary: w)
  case Nil
  then show ?case by simp
next
  case (Cons frame fs)
  from Cons.prems(2) obtain w1 where p: "process_frame frame w = Inr w1"
    and d: "drain_mesh fs w1 = Inr w'"
    by (cases "process_frame frame w") simp_all
  from Cons.IH[OF process_frame_separate[OF Cons.prems(1) p] d] show ?case .
qed

lemma main_iteration_separate:
  assumes "separate w" and "main_iteration inp w = Inr w'"
  shows "separate w'"
proof -
  define w1 where "w1 = w\<lparr>clock := clock w + int (elapsed inp)\<rparr>"
  define w3 where "w3 = health_checks (clock w1) (safety_watchdog (clock w1) w1)"
  define w5 where "w5 = mesh_dhcp (mesh_update (ack_poll w3))"
  have s1: "separate (safety_watchdog (clock w1) w1)"
    using assms(1) by (simp add: separate_alt w1_def)
  have s3: "separate w3" unfolding w3_def by (rule health_checks_separate[OF s1])
  have s5: "separate w5" using s3 by (simp add: w5_def separate_alt)
  from assms(2) obtain w6 where d: "drain_mesh (frames inp) w5 = Inr w6"
    and w': "w' = drain_queue (commands inp) w6"
    by (auto simp: main_iteration_def Let_def MESH_NODE_ID_def w1_def w3_def w5_def
             split: sum.splits)
  have "separate w6" by (rule drain_mesh_separate[OF s5 d])
  then show ?thesis by (simp add: w' separate_alt)
qed

lemma startup_membership: "membership (startup env) = ([], [])"
proof -
  define w0 where "w0 = env\<lparr>ac_allowed := False, connected_clients := [], connect_fail_clients := [],
                  last_known_temp := None, node_status_last_update := Map.empty,
                  node_last_heard := Map.empty, waiting_for_ack_state := None\<rparr>"
  define w1 where "w1 = snd (get_ac_allowed w0)"
  define w2 where "w2 = log Info (''AC permission loaded: ''
                          @ (if fst (get_ac_allowed w0) then ''enabled'' else ''disabled'')) None
                         (w1\<lparr>ac_allowed := fst (get_ac_allowed w0)\<rparr>)"
  define w3 where "w3 = snd (get_known_nodes w2)"
  define w4 where "w4 = (if fst (get_known_nodes w2) \<noteq> []
                         then log Info ''Waiting for nodes to check in...'' None
                                (log Info (''Known nodes: ''
                                   @ str_name_list (map nr_name (fst (get_known_nodes w2)))) None w3)
                         else w3)"
  have m0: "membership w0 = ([], [])" by (simp add: w0_def membership_def)
  have m1: "membership w1 = ([], [])" using m0 by (simp add: w1_def)
  have m2: "membership w2 = ([], [])" using m1 by (simp add: w2_def)
  have m3: "membership w3 = ([], [])" using m2 by (simp add: w3_def)
  have m4: "membership w4 = ([], [])" using m3 by (simp add: w4_def)
  have "startup env = w4\<lparr>last_ping_time := clock w4, last_temp_received_time := clock w4,
                            warning_printed := False, shutdown_executed := False\<rparr>"
    unfolding startup_def w4_def w3_def w2_def w1_def w0_def Let_def split_beta ..
  then show ?thesis using m4 by (simp add: membership_def)
qed

lemma startup_separate: "separate (startup env)"
  by (simp add: separate_alt startup_membership)

lemma main_loop_separate:
  "separate w \<Longrightarrow> main_loop inps w = Inr w' \<Longrightarrow> separate w'"
  by (induction inps arbitrary: w) (auto split: sum.splits dest: main_iteration_separate)

text \<open>
  Claim C7. In every state the controller reaches from its start, whatever the
  environment and whatever it receives, no node is in the connected list and in the
  failed list at once. The invariant that carries the proof is \<open>separate\<close>; a probe
  (\<open>ping_node_separate\<close>, on a node of the connected list, as the sweep calls it) and
  the tracking of an inbound frame (\<open>track_node_separate\<close>) keep it, and nothing else
  touches the two lists.
\<close>

theorem connected_and_failed_disjoint:
  assumes "main_loop inps (startup env) = Inr w"
  shows "\<not> (node \<in> set (connected_clients w) \<and> node \<in> set (connect_fail_clients w))"
  using main_loop_separate[OF startup_separate assms] by (auto simp: separate_def)

theorem connected_and_failed_disjoint_witness:
  "\<exists>w. main_loop heartbeat_run (startup idle_world) = Inr w
       \<and> connected_clients w = [2]
       \<and> \<not> (2 \<in> set (connected_clients w) \<and> 2 \<in> set (connect_fail_clients w))"
proof -
  have "case main_loop heartbeat_run (startup idle_world) of
          Inr w \<Rightarrow> connected_clients w = [2] | Inl e \<Rightarrow> False"
    by code_simp
  then obtain w where w: "main_loop heartbeat_run (startup idle_world) = Inr w"
    and c: "connected_clients w = [2]"
    by (cases "main_loop heartbeat_run (startup idle_world)") simp_all
  from connected_and_failed_disjoint[OF w, of 2] w c show ?thesis by blast
qed

end
